theory Spec2Isabelle
  imports Complex_Main "HOL-Library.Sublist" "HOL-Library.Code_Target_Nat"
begin

section \<open>Values of the source language\<close>

text \<open>
  The triage pipeline of \<^verbatim>\<open>backend/services/aiService.js\<close> is embedded function by function.
  A JavaScript string is a list of characters, one \<^typ>\<open>char\<close> per code unit (the Latin-1 range),
  so \<^const>\<open>length\<close> is the source's \<^verbatim>\<open>.length\<close>. A JavaScript number is an exact rational:
  the rounding of binary floating point and the value NaN are not represented.
\<close>

definition nl :: string where
  "nl = [CHR 0x0A]"

text \<open>\<^verbatim>\<open>String.prototype.toLowerCase\<close> on the Latin-1 range: A-Z and the accented capitals
  U+00C0..U+00DE (the multiplication sign U+00D7 apart) move up by 32.\<close>

definition toLowerChar :: "char \<Rightarrow> char" where
  "toLowerChar c =
     (let n = (of_char c :: nat)
      in if (65 \<le> n \<and> n \<le> 90) \<or> (192 \<le> n \<and> n \<le> 222 \<and> n \<noteq> 215)
         then char_of (n + 32) else c)"

definition toLowerCase :: "string \<Rightarrow> string" where
  "toLowerCase s = map toLowerChar s"

text \<open>\<^verbatim>\<open>text.includes(word)\<close>: the word starts at some position of the text.\<close>

fun string_includes :: "string \<Rightarrow> string \<Rightarrow> bool" where
  "string_includes [] word = (word = [])"
| "string_includes (c # cs) word = (prefix word (c # cs) \<or> string_includes cs word)"

text \<open>\<^verbatim>\<open>String.prototype.trim\<close>: white space of the Latin-1 range is removed at both ends.\<close>

definition isWhiteSpace :: "char \<Rightarrow> bool" where
  "isWhiteSpace c = ((of_char c :: nat) \<in> {9, 10, 11, 12, 13, 32, 160})"

definition trim :: "string \<Rightarrow> string" where
  "trim s = rev (dropWhile isWhiteSpace (rev (dropWhile isWhiteSpace s)))"

text \<open>The decimal digits a template literal writes for a non-negative integer.\<close>

definition digitChar :: "nat \<Rightarrow> char" where
  "digitChar d = char_of (48 + d)"

fun showNat :: "nat \<Rightarrow> string" where
  "showNat n = (if n < 10 then [digitChar n] else showNat (n div 10) @ [digitChar (n mod 10)])"

declare showNat.simps [simp del]

text \<open>\<^verbatim>\<open>Number.prototype.toFixed(3)\<close>: the nearest multiple of 1/1000, the larger one on a tie.\<close>

definition pad3 :: "string \<Rightarrow> string" where
  "pad3 s = replicate (3 - length s) (CHR ''0'') @ s"

definition toFixed3 :: "rat \<Rightarrow> string" where
  "toFixed3 x =
     (let a = \<bar>x\<bar>;
          n = nat \<lfloor>a * 1000 + 1 / 2\<rfloor>;
          digits = showNat (n div 1000) @ ''.'' @ pad3 (showNat (n mod 1000))
      in if x < 0 then ''-'' @ digits else digits)"

section \<open>Records of the pipeline\<close>

text \<open>Object identifiers are natural numbers; the field \<^verbatim>\<open>_id\<close> is written \<open>oid\<close>. A ticket
  is read only: the pipeline uses its identifier, title and description.\<close>

record ticket =
  oid :: nat
  title :: string
  description :: string

datatype articleStatus = draft | published

record article =
  oid :: nat
  title :: string
  body :: string
  tags :: "string list"
  status :: articleStatus
  category :: string
  createdAt :: nat

record categoryResult =
  category :: string
  confidence :: rat
  reasoning :: string

record draftResult =
  reply :: string
  tokensUsed :: nat

section \<open>Category classifier (heuristic mode)\<close>

definition keywordLists :: "(string \<times> string list) list" where
  "keywordLists =
     [(''billing'', [''bill'', ''invoice'', ''payment'', ''charge'', ''refund'', ''subscription'',
                     ''price'', ''cost'']),
      (''tech'', [''bug'', ''error'', ''crash'', ''not working'', ''broken'', ''issue'', ''problem'',
                  ''technical'']),
      (''shipping'', [''delivery'', ''shipping'', ''package'', ''tracking'', ''shipment'', ''order'',
                      ''received''])]"

text \<open>The \<^verbatim>\<open>reduce\<close> over one keyword list.\<close>

definition keywordScore :: "string \<Rightarrow> string list \<Rightarrow> nat" where
  "keywordScore text words =
     foldl (\<lambda>count word. count + (if string_includes text word then 1 else 0)) 0 words"

text \<open>One pass of the \<^verbatim>\<open>for ... of Object.entries(keywords)\<close> loop on the pair
  (bestCategory, bestScore).\<close>

definition scoreStep :: "string \<Rightarrow> string \<times> nat \<Rightarrow> string \<times> string list \<Rightarrow> string \<times> nat" where
  "scoreStep text best entry =
     (let score = keywordScore text (snd entry)
      in if score > snd best then (fst entry, score) else best)"

definition stubClassifyCategory :: "ticket \<Rightarrow> categoryResult" where
  "stubClassifyCategory t =
     (let text = toLowerCase (ticket.title t @ '' '' @ ticket.description t);
          best = foldl (scoreStep text) (''other'', 0) keywordLists;
          bestCategory = fst best;
          bestScore = snd best
      in \<lparr> category = bestCategory,
           confidence = (if bestScore > 0 then 0.8 else 0.5),
           reasoning = (if bestScore > 0 then ''Keywords found: '' @ showNat bestScore
                        else ''No specific keywords found'') \<rparr>)"

section \<open>Reply drafter (heuristic mode)\<close>

text \<open>The \<^verbatim>\<open>forEach\<close> over the articles, with its index.\<close>

fun appendArticles :: "string \<Rightarrow> nat \<Rightarrow> article list \<Rightarrow> string" where
  "appendArticles text index [] = text"
| "appendArticles text index (a # arts) =
     appendArticles (text @ showNat (index + 1) @ ''. '' @ article.title a @ nl) (index + 1) arts"

definition stubGenerateDraftReply :: "ticket \<Rightarrow> article list \<Rightarrow> categoryResult \<Rightarrow> draftResult" where
  "stubGenerateDraftReply t articles cr =
     (let reply = ''Thank you for contacting us regarding \"'' @ ticket.title t @ ''\".'';
          reply =
            (if length articles > 0
             then appendArticles
                    (reply @ nl @ nl
                       @ ''Based on your query, I found some relevant information that might help:''
                       @ nl @ nl) 0 articles
                  @ nl
                  @ ''Please review these resources. If they don't fully address your concern, our team will be happy to assist you further.''
             else reply @ nl @ nl @ ''I understand you need help with this ''
                  @ categoryResult.category cr
                  @ '' issue. Our team will review your request and get back to you shortly.'');
          reply = reply @ nl @ nl @ ''Best regards,'' @ nl @ ''Resolvia Support Team''
      in \<lparr> reply = reply, tokensUsed = 0 \<rparr>)"

section \<open>Confidence aggregator\<close>

definition calculateOverallConfidence :: "categoryResult \<Rightarrow> draftResult \<Rightarrow> article list \<Rightarrow> rat" where
  "calculateOverallConfidence cr dr articles =
     (let confidence = categoryResult.confidence cr * 0.4;
          articleScore = min (of_nat (length articles) / 3) 1 * 0.3;
          confidence = confidence + articleScore;
          replyLength = length (draftResult.reply dr);
          replyScore = min (of_nat replyLength / 500) 1 * 0.3;
          confidence = confidence + replyScore
      in min confidence 1)"

section \<open>Stores, errors and the order of calls\<close>

text \<open>
  The collaborators of the pipeline are the mongoose models. A collection is the list of its
  documents in insertion order. A rejected promise is an error value; the writes made before it
  stay in the world, as they stay in the database. The world also keeps, as a ghost, the
  order in which the pipeline calls its steps and collaborators. Time stamps are left out: the
  order of a collection is the order of its writes. Failures of the database connection itself
  are not represented: a model call fails only where its schema or its unique index rejects the
  document.
\<close>

datatype error =
    ValidationError string "string list"
  | DuplicateKeyError string

text \<open>\<^verbatim>\<open>error.message\<close>: the model and the rejected paths (or the index); the values that
  mongoose quotes in the message are left out.\<close>

fun joinWith :: "string \<Rightarrow> string list \<Rightarrow> string" where
  "joinWith sep [] = []"
| "joinWith sep [x] = x"
| "joinWith sep (x # y # ys) = x @ sep @ joinWith sep (y # ys)"

fun message :: "error \<Rightarrow> string" where
  "message (ValidationError m paths) = m @ '' validation failed: '' @ joinWith '', '' paths"
| "message (DuplicateKeyError index) = ''E11000 duplicate key error index: '' @ index"

datatype meta =
    TicketTitle string
  | Retrieved string string "nat list"
  | AutoCloseMeta rat rat string
  | Summary rat string nat bool
  | ErrorMeta string

record auditLog =
  ticketId :: nat
  traceId :: string
  actor :: string
  action :: string
  description :: string
  meta :: meta

record modelInfo =
  model :: string
  version :: string
  processingTime :: nat
  tokensUsed :: nat

record agentSuggestion =
  oid :: nat
  ticketId :: nat
  traceId :: string
  predictedCategory :: string
  categoryConfidence :: rat
  articleIds :: "nat list"
  draftReply :: string
  confidence :: rat
  autoClosed :: bool
  modelInfo :: modelInfo
  used :: bool

record config =
  autoCloseEnabled :: bool
  confidenceThreshold :: rat

datatype call =
    Call_logAction string
  | Call_classifyCategory
  | Call_searchByKeywords "string option" nat
  | Call_generateDraftReply
  | Call_create nat
  | Call_getConfig
  | Call_save nat

record world =
  articles :: "article list"
  agentSuggestions :: "agentSuggestion list"
  auditLogs :: "auditLog list"
  configDoc :: "config option"
  nextOid :: nat
  calls :: "call list"

type_synonym 'a io = "world \<Rightarrow> (error + 'a) \<times> world"

definition returnIO :: "'a \<Rightarrow> 'a io" where
  "returnIO x = (\<lambda>w. (Inr x, w))"

definition throwIO :: "error \<Rightarrow> 'a io" where
  "throwIO e = (\<lambda>w. (Inl e, w))"

text \<open>\<^verbatim>\<open>const x = await m; ...\<close>: the rest runs on the value of \<open>m\<close>, unless \<open>m\<close> rejects.\<close>

definition bindIO :: "'a io \<Rightarrow> ('a \<Rightarrow> 'b io) \<Rightarrow> 'b io" where
  "bindIO m f = (\<lambda>w. case m w of (Inl e, w') \<Rightarrow> (Inl e, w') | (Inr x, w') \<Rightarrow> f x w')"

text \<open>\<^verbatim>\<open>try { m } catch (error) { h }\<close>.\<close>

definition tryCatch :: "'a io \<Rightarrow> (error \<Rightarrow> 'a io) \<Rightarrow> 'a io" where
  "tryCatch m h = (\<lambda>w. case m w of (Inl e, w') \<Rightarrow> h e w' | (Inr x, w') \<Rightarrow> (Inr x, w'))"

definition called :: "call \<Rightarrow> unit io" where
  "called c = (\<lambda>w. (Inr (), w\<lparr> calls := calls w @ [c] \<rparr>))"

subsection \<open>AuditLog\<close>

definition auditActors :: "string list" where
  "auditActors = [''system'', ''user'', ''agent'', ''admin'']"

definition auditActions :: "string list" where
  "auditActions =
     [''ticket_created'', ''ticket_updated'', ''status_changed'', ''assigned'', ''unassigned'',
      ''assignment_requested'', ''assignment_approved'', ''assignment_rejected'', ''reply_added'',
      ''category_predicted'', ''articles_retrieved'', ''reply_drafted'', ''auto_closed'',
      ''agent_reviewed'', ''escalated'', ''sla_set'', ''sla_breached'']"

text \<open>The paths of the schema that reject the document: \<^verbatim>\<open>required\<close> rejects an empty
  string, \<^verbatim>\<open>enum\<close> a value outside the list, \<^verbatim>\<open>maxlength\<close> a longer string.\<close>

definition auditLogInvalidPaths :: "auditLog \<Rightarrow> string list" where
  "auditLogInvalidPaths d =
     (if auditLog.traceId d = '''' then [''traceId''] else []) @
     (if actor d \<notin> set auditActors then [''actor''] else []) @
     (if action d \<notin> set auditActions then [''action''] else []) @
     (if description d = '''' \<or> length (description d) > 500 then [''description''] else [])"

definition logAction :: "auditLog \<Rightarrow> unit io" where
  "logAction d =
     bindIO (called (Call_logAction (action d))) (\<lambda>_.
       if auditLogInvalidPaths d = []
       then (\<lambda>w. (Inr (), w\<lparr> auditLogs := auditLogs w @ [d] \<rparr>))
       else throwIO (ValidationError ''AuditLog'' (auditLogInvalidPaths d)))"

subsection \<open>Article\<close>

text \<open>The relevance score of the text index is the database's; it is a parameter of the
  pipeline. A document matches \<^verbatim>\<open>$text\<close> when its score is positive; ties keep the order of
  the collection.\<close>

record searchOptions =
  status :: articleStatus
  category :: "string option"
  limit :: nat
  skip :: nat

definition categoryFilter :: "string option \<Rightarrow> article \<Rightarrow> bool" where
  "categoryFilter c a = (case c of None \<Rightarrow> True | Some x \<Rightarrow> x = '''' \<or> article.category a = x)"

definition textFilter :: "(string \<Rightarrow> article \<Rightarrow> nat) \<Rightarrow> string \<Rightarrow> article \<Rightarrow> bool" where
  "textFilter score keywords a = (if trim keywords = '''' then True else 0 < score keywords a)"

definition findArticles :: "(string \<Rightarrow> article \<Rightarrow> nat) \<Rightarrow> string \<Rightarrow> searchOptions \<Rightarrow> article list \<Rightarrow> article list" where
  "findArticles score keywords options docs =
     (let query = filter (\<lambda>a. article.status a = searchOptions.status options
                            \<and> categoryFilter (searchOptions.category options) a
                            \<and> textFilter score keywords a) docs;
          sorted = (if keywords \<noteq> '''' then sort_key (\<lambda>a. - int (score keywords a)) query
                    else sort_key (\<lambda>a. - int (createdAt a)) query)
      in take (limit options) (drop (skip options) sorted))"

definition searchByKeywords :: "(string \<Rightarrow> article \<Rightarrow> nat) \<Rightarrow> string \<Rightarrow> searchOptions \<Rightarrow> article list io" where
  "searchByKeywords score keywords options =
     bindIO (called (Call_searchByKeywords (searchOptions.category options) (limit options))) (\<lambda>_.
       (\<lambda>w. (Inr (findArticles score keywords options (articles w)), w)))"

subsection \<open>AgentSuggestion\<close>

definition agentSuggestionInvalidPaths :: "agentSuggestion \<Rightarrow> string list" where
  "agentSuggestionInvalidPaths d =
     (if agentSuggestion.traceId d = '''' then [''traceId''] else []) @
     (if predictedCategory d \<notin> set [''billing'', ''tech'', ''shipping'', ''other'']
      then [''predictedCategory''] else []) @
     (if categoryConfidence d < 0 \<or> categoryConfidence d > 1 then [''categoryConfidence''] else []) @
     (if draftReply d = '''' \<or> length (draftReply d) > 5000 then [''draftReply''] else []) @
     (if agentSuggestion.confidence d < 0 \<or> agentSuggestion.confidence d > 1
      then [''confidence''] else [])"

text \<open>\<^verbatim>\<open>AgentSuggestion.create\<close>: validation, then the insert, which the unique index on
  \<^verbatim>\<open>ticketId\<close> rejects when the collection holds a suggestion of that ticket. The document
  gets a fresh identifier.\<close>

definition create :: "agentSuggestion \<Rightarrow> agentSuggestion io" where
  "create d =
     bindIO (called (Call_create (agentSuggestion.ticketId d))) (\<lambda>_.
       if agentSuggestionInvalidPaths d \<noteq> []
       then throwIO (ValidationError ''AgentSuggestion'' (agentSuggestionInvalidPaths d))
       else (\<lambda>w.
         if agentSuggestion.ticketId d \<in> set (map agentSuggestion.ticketId (agentSuggestions w))
         then (Inl (DuplicateKeyError ''ticketId_1''), w)
         else (let doc = d\<lparr> agentSuggestion.oid := nextOid w \<rparr>
               in (Inr doc, w\<lparr> agentSuggestions := agentSuggestions w @ [doc],
                                nextOid := nextOid w + 1 \<rparr>))))"

text \<open>\<^verbatim>\<open>suggestion.save()\<close> on a document of the collection: the stored copy is replaced.\<close>

definition save :: "agentSuggestion \<Rightarrow> agentSuggestion io" where
  "save d =
     bindIO (called (Call_save (agentSuggestion.oid d))) (\<lambda>_ w.
       (Inr d, w\<lparr> agentSuggestions :=
                    map (\<lambda>s. if agentSuggestion.oid s = agentSuggestion.oid d then d else s)
                        (agentSuggestions w) \<rparr>))"

subsection \<open>Config\<close>

definition defaultConfig :: config where
  "defaultConfig = \<lparr> autoCloseEnabled = False, confidenceThreshold = 0.8 \<rparr>"

definition getConfig :: "config io" where
  "getConfig =
     bindIO (called Call_getConfig) (\<lambda>_ w.
       case configDoc w of
         Some c \<Rightarrow> (Inr c, w)
       | None \<Rightarrow> (Inr defaultConfig, w\<lparr> configDoc := Some defaultConfig \<rparr>))"

section \<open>The service\<close>

text \<open>
  What the process and the outside world give one run: the \<^verbatim>\<open>STUB_MODE\<close> flag, the
  generative model (absent without an API key), the text index's score, the identifier that
  \<^verbatim>\<open>uuidv4()\<close> returns and the milliseconds that pass until the suggestion is created.
  The generative model answers a classification request with the parsed JSON object
  (category, confidence, reasoning) and a reply request with the text and the token count;
  \<open>None\<close> stands for a rejected request or an answer that does not parse.
\<close>

record generativeModel =
  classification :: "string \<Rightarrow> string \<Rightarrow> (string \<times> rat \<times> string) option"
  generatedReply :: "string \<Rightarrow> string \<Rightarrow> string \<Rightarrow> string \<Rightarrow> (string \<times> nat) option"

record env =
  STUB_MODE :: bool
  genModel :: "generativeModel option"
  textScore :: "string \<Rightarrow> article \<Rightarrow> nat"
  uuidv4 :: string
  elapsed :: nat

record triageResult =
  suggestion :: agentSuggestion
  shouldAutoClose :: bool
  traceId :: string

definition classifyCategory :: "env \<Rightarrow> ticket \<Rightarrow> string \<Rightarrow> categoryResult io" where
  "classifyCategory e t trace =
     bindIO (called Call_classifyCategory) (\<lambda>_.
       if STUB_MODE e \<or> genModel e = None then returnIO (stubClassifyCategory t)
       else (case genModel e of
               None \<Rightarrow> returnIO (stubClassifyCategory t)
             | Some m \<Rightarrow>
                 (case classification m (ticket.title t) (ticket.description t) of
                    Some (c, conf, r) \<Rightarrow>
                      returnIO \<lparr> categoryResult.category = c, categoryResult.confidence = min (max conf 0) 1, reasoning = r \<rparr>
                  | None \<Rightarrow> returnIO (stubClassifyCategory t))))"

definition retrieveRelevantArticles :: "env \<Rightarrow> ticket \<Rightarrow> string \<Rightarrow> string \<Rightarrow> article list io" where
  "retrieveRelevantArticles e t cat trace =
     (let query = ticket.title t @ '' '' @ ticket.description t
      in bindIO (searchByKeywords (textScore e) query
                   \<lparr> searchOptions.status = published, searchOptions.category = Some cat, limit = 5, skip = 0 \<rparr>) (\<lambda>found.
         bindIO (if length found = 0
                 then bindIO (searchByKeywords (textScore e) query
                                \<lparr> searchOptions.status = published, searchOptions.category = None, limit = 3, skip = 0 \<rparr>)
                        (\<lambda>allArticles. returnIO (found @ allArticles))
                 else returnIO found) (\<lambda>found.
         bindIO (logAction
                   \<lparr> auditLog.ticketId = ticket.oid t, auditLog.traceId = trace, actor = ''system'',
                     action = ''articles_retrieved'',
                     description = ''Retrieved '' @ showNat (length found) @ '' relevant articles'',
                     meta = Retrieved (take 100 query) cat (map article.oid found) \<rparr>) (\<lambda>_.
         returnIO found))))"

definition articlesText :: "article list \<Rightarrow> string" where
  "articlesText found =
     joinWith (nl @ nl)
       (map (\<lambda>a. ''Title: '' @ article.title a @ nl @ ''Content: '' @ take 300 (body a) @ ''...'')
            found)"

definition generateDraftReply :: "env \<Rightarrow> ticket \<Rightarrow> article list \<Rightarrow> categoryResult \<Rightarrow> string \<Rightarrow> draftResult io" where
  "generateDraftReply e t found cr trace =
     bindIO (called Call_generateDraftReply) (\<lambda>_.
       if STUB_MODE e \<or> genModel e = None then returnIO (stubGenerateDraftReply t found cr)
       else (case genModel e of
               None \<Rightarrow> returnIO (stubGenerateDraftReply t found cr)
             | Some m \<Rightarrow>
                 (case generatedReply m (ticket.title t) (ticket.description t)
                         (categoryResult.category cr) (articlesText found) of
                    Some (answer, tokens) \<Rightarrow> returnIO \<lparr> reply = trim answer, draftResult.tokensUsed = tokens \<rparr>
                  | None \<Rightarrow> returnIO (stubGenerateDraftReply t found cr))))"

definition getStubResult :: "env \<Rightarrow> ticket \<Rightarrow> string \<Rightarrow> triageResult io" where
  "getStubResult e t trace =
     (let cr = stubClassifyCategory t
      in bindIO (retrieveRelevantArticles e t (categoryResult.category cr) trace) (\<lambda>found.
         let dr = stubGenerateDraftReply t found cr;
             conf = calculateOverallConfidence cr dr found
         in bindIO (create
                      \<lparr> agentSuggestion.oid = 0, agentSuggestion.ticketId = ticket.oid t,
                    agentSuggestion.traceId = trace,
                        predictedCategory = categoryResult.category cr,
                        categoryConfidence = categoryResult.confidence cr,
                        articleIds = map article.oid found,
                        draftReply = draftResult.reply dr,
                        agentSuggestion.confidence = conf,
                        autoClosed = False,
                        modelInfo = \<lparr> model = ''stub'', version = ''1.0'', processingTime = 100,
                                      modelInfo.tokensUsed = 0 \<rparr>,
                        used = False \<rparr>) (\<lambda>s.
            returnIO \<lparr> suggestion = s, shouldAutoClose = False, traceId = trace \<rparr>)))"

text \<open>The \<^verbatim>\<open>try\<close> block of \<^verbatim>\<open>processTicket\<close>.\<close>

definition processTicket_try :: "env \<Rightarrow> ticket \<Rightarrow> string \<Rightarrow> triageResult io" where
  "processTicket_try e t trace =
     bindIO (logAction
               \<lparr> auditLog.ticketId = ticket.oid t, auditLog.traceId = trace, actor = ''system'',
                 action = ''category_predicted'',
                 description = ''Starting AI triage process'',
                 meta = TicketTitle (ticket.title t) \<rparr>) (\<lambda>_.
     bindIO (classifyCategory e t trace) (\<lambda>cr.
     bindIO (retrieveRelevantArticles e t (categoryResult.category cr) trace) (\<lambda>found.
     bindIO (generateDraftReply e t found cr trace) (\<lambda>dr.
     let conf = calculateOverallConfidence cr dr found
     in bindIO (create
                  \<lparr> agentSuggestion.oid = 0, agentSuggestion.ticketId = ticket.oid t,
                    agentSuggestion.traceId = trace,
                    predictedCategory = categoryResult.category cr,
                    categoryConfidence = categoryResult.confidence cr,
                    articleIds = map article.oid found,
                    draftReply = draftResult.reply dr,
                    agentSuggestion.confidence = conf,
                    autoClosed = False,
                    modelInfo = \<lparr> model = (if STUB_MODE e then ''stub'' else ''gemini-pro''),
                                  version = ''1.0'', processingTime = elapsed e,
                                  modelInfo.tokensUsed = draftResult.tokensUsed dr \<rparr>,
                    used = False \<rparr>) (\<lambda>s.
     bindIO getConfig (\<lambda>cfg.
     let close = (autoCloseEnabled cfg \<and> conf \<ge> confidenceThreshold cfg)
     in bindIO (if close
                then bindIO (save (s\<lparr> autoClosed := True \<rparr>)) (\<lambda>s'.
                     bindIO (logAction
                               \<lparr> auditLog.ticketId = ticket.oid t, auditLog.traceId = trace, actor = ''system'',
                                 action = ''auto_closed'',
                                 description = ''Auto-closed with confidence '' @ toFixed3 conf,
                                 meta = AutoCloseMeta conf (confidenceThreshold cfg)
                                          (draftResult.reply dr) \<rparr>) (\<lambda>_.
                     returnIO s'))
                else returnIO s) (\<lambda>s.
        bindIO (logAction
                  \<lparr> auditLog.ticketId = ticket.oid t, auditLog.traceId = trace, actor = ''system'',
                    action = ''reply_drafted'',
                    description = ''AI triage process completed'',
                    meta = Summary conf (categoryResult.category cr) (length found) close \<rparr>) (\<lambda>_.
        returnIO \<lparr> suggestion = s, shouldAutoClose = close, traceId = trace \<rparr>))))))))"

text \<open>The \<^verbatim>\<open>catch\<close> block.\<close>

definition processTicket_catch :: "env \<Rightarrow> ticket \<Rightarrow> string \<Rightarrow> error \<Rightarrow> triageResult io" where
  "processTicket_catch e t trace err =
     bindIO (logAction
               \<lparr> auditLog.ticketId = ticket.oid t, auditLog.traceId = trace, actor = ''system'',
                 action = ''triage_failed'',
                 description = ''AI triage failed: '' @ message err,
                 meta = ErrorMeta (message err) \<rparr>) (\<lambda>_.
     getStubResult e t trace)"

definition processTicket :: "env \<Rightarrow> ticket \<Rightarrow> triageResult io" where
  "processTicket e t =
     (let trace = uuidv4 e
      in tryCatch (processTicket_try e t trace) (processTicket_catch e t trace))"

section \<open>Reference notions and sample inputs\<close>










text \<open>The two tiers of the retriever in the words of the specification: the primary query
  (published, the category, at most 5), the fallback query (published, any category, at most 3),
  the list the retriever returns, the calls it makes and the audit event it writes.\<close>

definition primarySearch :: "env \<Rightarrow> ticket \<Rightarrow> string \<Rightarrow> world \<Rightarrow> article list" where
  "primarySearch e t cat w =
     findArticles (textScore e) (ticket.title t @ '' '' @ ticket.description t)
       \<lparr> searchOptions.status = published, searchOptions.category = Some cat, limit = 5, skip = 0 \<rparr>
       (articles w)"

definition fallbackSearch :: "env \<Rightarrow> ticket \<Rightarrow> world \<Rightarrow> article list" where
  "fallbackSearch e t w =
     findArticles (textScore e) (ticket.title t @ '' '' @ ticket.description t)
       \<lparr> searchOptions.status = published, searchOptions.category = None, limit = 3, skip = 0 \<rparr>
       (articles w)"

definition retrieved :: "env \<Rightarrow> ticket \<Rightarrow> string \<Rightarrow> world \<Rightarrow> article list" where
  "retrieved e t cat w =
     (if primarySearch e t cat w = [] then fallbackSearch e t w else primarySearch e t cat w)"

definition retrievalCalls :: "env \<Rightarrow> ticket \<Rightarrow> string \<Rightarrow> world \<Rightarrow> call list" where
  "retrievalCalls e t cat w =
     [Call_searchByKeywords (Some cat) 5]
     @ (if primarySearch e t cat w = [] then [Call_searchByKeywords None 3] else [])
     @ [Call_logAction ''articles_retrieved'']"

definition retrievalEvent :: "ticket \<Rightarrow> string \<Rightarrow> string \<Rightarrow> article list \<Rightarrow> auditLog" where
  "retrievalEvent t trace cat found =
     \<lparr> auditLog.ticketId = ticket.oid t, auditLog.traceId = trace, actor = ''system'',
       action = ''articles_retrieved'',
       description = ''Retrieved '' @ showNat (length found) @ '' relevant articles'',
       meta = Retrieved (take 100 (ticket.title t @ '' '' @ ticket.description t)) cat
                (map article.oid found) \<rparr>"

text \<open>The configuration a run reads: the stored document, or the defaults when there is none.\<close>

definition currentConfig :: "world \<Rightarrow> config" where
  "currentConfig w = (case configDoc w of Some c \<Rightarrow> c | None \<Rightarrow> defaultConfig)"

text \<open>The audit events written between two worlds, and whether a call comes before another
  in a list of calls.\<close>

definition emitted :: "world \<Rightarrow> world \<Rightarrow> auditLog list" where
  "emitted w w' = drop (length (auditLogs w)) (auditLogs w')"

definition occursBefore :: "call \<Rightarrow> call \<Rightarrow> call list \<Rightarrow> bool" where
  "occursBefore a b cs = (b \<in> set (drop 1 (dropWhile (\<lambda>c. c \<noteq> a) cs)))"

text \<open>A knowledge base, a ticket and a stand-in for the text index (the number of an article's
  tags that occur in the case-folded query), shortened from the fixtures of the repository's
  pipeline tests; a world with no suggestion and no configuration yet, and one whose
  configuration closes eagerly.\<close>

definition tagScore :: "string \<Rightarrow> article \<Rightarrow> nat" where
  "tagScore keywords a = keywordScore (toLowerCase keywords) (tags a)"

definition kbArticles :: "article list" where
  "kbArticles =
     [\<lparr> article.oid = 11, article.title = ''Password Reset Guide'',
        body = ''Use the forgot password link.'',
        tags = [''password'', ''reset'', ''login''], article.status = published,
        article.category = ''tech'', createdAt = 1 \<rparr>,
      \<lparr> article.oid = 12, article.title = ''Billing Questions'',
        body = ''Contact our billing team.'',
        tags = [''billing'', ''invoice'', ''payment''], article.status = published,
        article.category = ''billing'', createdAt = 2 \<rparr>,
      \<lparr> article.oid = 13, article.title = ''Shipping Information'',
        body = ''Track your order by its number.'',
        tags = [''shipping'', ''delivery'', ''tracking''], article.status = published,
        article.category = ''shipping'', createdAt = 3 \<rparr>]"

definition passwordTicket :: ticket where
  "passwordTicket = \<lparr> ticket.oid = 7, ticket.title = ''Cannot reset my password'',
     description = ''The reset email is not working.'' \<rparr>"



definition freshWorld :: world where
  "freshWorld = \<lparr> articles = kbArticles, agentSuggestions = [], auditLogs = [], configDoc = None,
                   nextOid = 100, calls = [] \<rparr>"

definition eagerWorld :: world where
  "eagerWorld =
     freshWorld\<lparr> configDoc := Some \<lparr> autoCloseEnabled = True, confidenceThreshold = 0.1 \<rparr> \<rparr>"

definition stubEnv :: env where
  "stubEnv = \<lparr> STUB_MODE = True, genModel = None, textScore = tagScore, uuidv4 = ''trace-1'',
                elapsed = 12 \<rparr>"

text \<open>A second run of the same ticket, on the world the first run leaves, under a new trace
  identifier.\<close>

definition secondEnv :: env where
  "secondEnv = stubEnv\<lparr> uuidv4 := ''trace-2'' \<rparr>"

definition triagedWorld :: world where
  "triagedWorld = snd (processTicket stubEnv passwordTicket freshWorld)"

text \<open>A run with a generative model that answers the classification request with a category
  outside the closed domain and rejects the reply request.\<close>

definition llmEnv :: env where
  "llmEnv = \<lparr> STUB_MODE = False,
       genModel = Some \<lparr> classification = (\<lambda>_ _. Some (''account'', 0.9, ''login trouble'')),
                          generatedReply = (\<lambda>_ _ _ _. None) \<rparr>,
       textScore = tagScore, uuidv4 = ''trace-3'', elapsed = 950 \<rparr>"

text \<open>What is read off a finished call: the error or the decision, the calls made, the audit
  trail, the tickets that have a suggestion and the stored configuration.\<close>

definition run_summary ::
  "(error + triageResult) \<times> world \<Rightarrow>
     (error + bool \<times> bool \<times> rat \<times> string \<times> string) \<times> call list
     \<times> (string \<times> string \<times> nat) list \<times> nat list \<times> config option" where
  "run_summary x =
     (case x of (res, w) \<Rightarrow>
        (map_sum id (\<lambda>r. (shouldAutoClose r, autoClosed (suggestion r),
                            agentSuggestion.confidence (suggestion r),
                            predictedCategory (suggestion r), triageResult.traceId r)) res,
         calls w,
         map (\<lambda>d. (action d, auditLog.traceId d, auditLog.ticketId d)) (auditLogs w),
         map agentSuggestion.ticketId (agentSuggestions w),
         configDoc w))"

section \<open>The heuristic classifier\<close>










section \<open>The confidence aggregator\<close>



text \<open>C5, as stated, fails: the function clamps from above only, so a negative classifier
  confidence with no article and an empty reply gives a negative aggregate.\<close>

theorem calculateOverallConfidence_negative:
  "calculateOverallConfidence \<lparr> categoryResult.category = ''other'', categoryResult.confidence = - 1, reasoning = '''' \<rparr>
        \<lparr> reply = '''', draftResult.tokensUsed = 0 \<rparr> [] = - 0.4
   \<and> \<not> (0 \<le> calculateOverallConfidence \<lparr> categoryResult.category = ''other'', categoryResult.confidence = - 1, reasoning = '''' \<rparr>
        \<lparr> reply = '''', draftResult.tokensUsed = 0 \<rparr> [])"
  by (simp add: calculateOverallConfidence_def)

text \<open>C5, amended. When the classifier confidence is not negative (every classifier of the
  service returns 0.5, 0.8 or a value clamped to [0,1]), the aggregate lies in [0,1], for any
  article list and any reply, the empty ones included.\<close>

theorem calculateOverallConfidence_bounds:
  "0 \<le> categoryResult.confidence cr \<Longrightarrow>
     0 \<le> calculateOverallConfidence cr dr arts \<and> calculateOverallConfidence cr dr arts \<le> 1"
  by (simp add: calculateOverallConfidence_def Let_def min_def)

theorem calculateOverallConfidence_bounds_witness:
  "0 \<le> categoryResult.confidence \<lparr> categoryResult.category = ''other'', categoryResult.confidence = 0.1, reasoning = '''' \<rparr>
   \<and> 0 \<le> calculateOverallConfidence \<lparr> categoryResult.category = ''other'', categoryResult.confidence = 0.1, reasoning = '''' \<rparr>
        \<lparr> reply = ''Short'', draftResult.tokensUsed = 0 \<rparr> []
   \<and> calculateOverallConfidence \<lparr> categoryResult.category = ''other'', categoryResult.confidence = 0.1, reasoning = '''' \<rparr>
        \<lparr> reply = ''Short'', draftResult.tokensUsed = 0 \<rparr> [] \<le> 1"
  using calculateOverallConfidence_bounds
    [of "\<lparr> categoryResult.category = ''other'', categoryResult.confidence = 0.1, reasoning = '''' \<rparr>"
        "\<lparr> reply = ''Short'', draftResult.tokensUsed = 0 \<rparr>" "[]"]
  by simp

section \<open>The heuristic draft\<close>





section \<open>The steps of the pipeline\<close>

text \<open>Each collaborator call as one equation on the world, and what a successful pass through the
  \<^verbatim>\<open>try\<close> block leaves behind.\<close>

lemma bindIO_InrE:
  assumes "bindIO m f w = (Inr r, w')"
  obtains x w1 where "m w = (Inr x, w1)" and "f x w1 = (Inr r, w')"
  using assms by (auto simp: bindIO_def split: prod.splits sum.splits)

lemma logAction_eq:
  "logAction d w =
     (if auditLogInvalidPaths d = []
      then (Inr (), w\<lparr> calls := calls w @ [Call_logAction (action d)],
                       auditLogs := auditLogs w @ [d] \<rparr>)
      else (Inl (ValidationError ''AuditLog'' (auditLogInvalidPaths d)),
            w\<lparr> calls := calls w @ [Call_logAction (action d)] \<rparr>))"
  by (simp add: logAction_def bindIO_def called_def throwIO_def)

lemma logAction_Inr:
  assumes "logAction d w = (Inr u, w')"
  shows "w' = w\<lparr> calls := calls w @ [Call_logAction (action d)], auditLogs := auditLogs w @ [d] \<rparr>"
  using assms by (auto simp: logAction_eq split: if_splits)

lemma classifyCategory_effect:
  "\<exists>cr. classifyCategory e t trace w = (Inr cr, w\<lparr> calls := calls w @ [Call_classifyCategory] \<rparr>)"
  by (auto simp: classifyCategory_def bindIO_def called_def returnIO_def split: option.splits)

lemma generateDraftReply_effect:
  "\<exists>dr. generateDraftReply e t found cr trace w
          = (Inr dr, w\<lparr> calls := calls w @ [Call_generateDraftReply] \<rparr>)"
  by (auto simp: generateDraftReply_def bindIO_def called_def returnIO_def split: option.splits)

lemma searchByKeywords_eq:
  "searchByKeywords score keywords options w =
     (Inr (findArticles score keywords options (articles w)),
      w\<lparr> calls := calls w @ [Call_searchByKeywords (searchOptions.category options) (limit options)] \<rparr>)"
  by (simp add: searchByKeywords_def bindIO_def called_def)

lemma retrieveRelevantArticles_eq:
  "retrieveRelevantArticles e t cat trace w =
     (let found = retrieved e t cat w; ev = retrievalEvent t trace cat found
      in if auditLogInvalidPaths ev = []
         then (Inr found, w\<lparr> calls := calls w @ retrievalCalls e t cat w,
                              auditLogs := auditLogs w @ [ev] \<rparr>)
         else (Inl (ValidationError ''AuditLog'' (auditLogInvalidPaths ev)),
               w\<lparr> calls := calls w @ retrievalCalls e t cat w \<rparr>))"
  by (simp add: retrieveRelevantArticles_def Let_def bindIO_def searchByKeywords_eq logAction_eq
      returnIO_def retrieved_def primarySearch_def fallbackSearch_def retrievalCalls_def
      retrievalEvent_def)

lemma getConfig_eq:
  "getConfig w = (Inr (currentConfig w),
                  w\<lparr> calls := calls w @ [Call_getConfig], configDoc := Some (currentConfig w) \<rparr>)"
  by (cases "configDoc w") (simp_all add: getConfig_def bindIO_def called_def currentConfig_def)

lemma save_eq:
  "save d w = (Inr d, w\<lparr> calls := calls w @ [Call_save (agentSuggestion.oid d)],
                         agentSuggestions :=
                           map (\<lambda>s. if agentSuggestion.oid s = agentSuggestion.oid d then d else s)
                               (agentSuggestions w) \<rparr>)"
  by (simp add: save_def bindIO_def called_def)

lemma create_eq:
  "create d w =
     (if agentSuggestionInvalidPaths d \<noteq> []
      then (Inl (ValidationError ''AgentSuggestion'' (agentSuggestionInvalidPaths d)),
            w\<lparr> calls := calls w @ [Call_create (agentSuggestion.ticketId d)] \<rparr>)
      else if agentSuggestion.ticketId d \<in> set (map agentSuggestion.ticketId (agentSuggestions w))
      then (Inl (DuplicateKeyError ''ticketId_1''),
            w\<lparr> calls := calls w @ [Call_create (agentSuggestion.ticketId d)] \<rparr>)
      else (Inr (d\<lparr> agentSuggestion.oid := nextOid w \<rparr>),
            w\<lparr> calls := calls w @ [Call_create (agentSuggestion.ticketId d)],
               agentSuggestions := agentSuggestions w @ [d\<lparr> agentSuggestion.oid := nextOid w \<rparr>],
               nextOid := nextOid w + 1 \<rparr>))"
  by (simp add: create_def bindIO_def called_def throwIO_def Let_def)

lemma triage_failed_invalid:
  "''action'' \<in> set (auditLogInvalidPaths
      \<lparr> auditLog.ticketId = i, auditLog.traceId = trace, actor = a,
        action = ''triage_failed'', description = d, meta = m \<rparr>)"
  by (simp add: auditLogInvalidPaths_def auditActions_def)

lemma processTicket_catch_fails:
  "\<exists>paths w'. processTicket_catch e t trace err w = (Inl (ValidationError ''AuditLog'' paths), w')
       \<and> ''action'' \<in> set paths
       \<and> agentSuggestions w' = agentSuggestions w
       \<and> auditLogs w' = auditLogs w
       \<and> calls w' = calls w @ [Call_logAction ''triage_failed'']"
proof -
  let ?ev = "\<lparr> auditLog.ticketId = ticket.oid t, auditLog.traceId = trace, actor = ''system'',
                 action = ''triage_failed'',
                 description = ''AI triage failed: '' @ message err,
                 meta = ErrorMeta (message err) \<rparr>"
  have a: "''action'' \<in> set (auditLogInvalidPaths ?ev)"
    by (rule triage_failed_invalid)
  then have "auditLogInvalidPaths ?ev \<noteq> []"
    by auto
  then have "processTicket_catch e t trace err w =
          (Inl (ValidationError ''AuditLog'' (auditLogInvalidPaths ?ev)),
           w\<lparr> calls := calls w @ [Call_logAction ''triage_failed''] \<rparr>)"
    by (simp add: processTicket_catch_def bindIO_def logAction_eq)
  with a show ?thesis
    by simp
qed

lemma retrieved_frame [simp]:
  "retrieved e t cat (w\<lparr> calls := c \<rparr>) = retrieved e t cat w"
  "retrieved e t cat (w\<lparr> auditLogs := a \<rparr>) = retrieved e t cat w"
  "retrievalCalls e t cat (w\<lparr> calls := c \<rparr>) = retrievalCalls e t cat w"
  "retrievalCalls e t cat (w\<lparr> auditLogs := a \<rparr>) = retrievalCalls e t cat w"
  by (simp_all add: retrieved_def retrievalCalls_def primarySearch_def fallbackSearch_def)

lemma currentConfig_frame [simp]:
  "currentConfig (w\<lparr> calls := c \<rparr>) = currentConfig w"
  "currentConfig (w\<lparr> auditLogs := a \<rparr>) = currentConfig w"
  "currentConfig (w\<lparr> agentSuggestions := s \<rparr>) = currentConfig w"
  "currentConfig (w\<lparr> nextOid := n \<rparr>) = currentConfig w"
  by (simp_all add: currentConfig_def)

lemma classifyCategory_value:
  "fst (classifyCategory e t trace w) = fst (classifyCategory e t trace' w')"
  by (auto simp: classifyCategory_def bindIO_def called_def returnIO_def split: option.splits)

lemma generateDraftReply_value:
  "fst (generateDraftReply e t found cr trace w) = fst (generateDraftReply e t found cr trace' w')"
  by (auto simp: generateDraftReply_def bindIO_def called_def returnIO_def split: option.splits)

lemma classifyCategory_Inr:
  "classifyCategory e t trace w = (Inr cr, w') \<Longrightarrow> w' = w\<lparr> calls := calls w @ [Call_classifyCategory] \<rparr>"
  using classifyCategory_effect [of e t trace w] by auto

lemma generateDraftReply_Inr:
  "generateDraftReply e t found cr trace w = (Inr dr, w')
     \<Longrightarrow> w' = w\<lparr> calls := calls w @ [Call_generateDraftReply] \<rparr>"
  using generateDraftReply_effect [of e t found cr trace w] by auto

lemma retrieveRelevantArticles_Inr:
  assumes "retrieveRelevantArticles e t cat trace w = (Inr found, w')"
  shows "found = retrieved e t cat w"
    and "w' = w\<lparr> calls := calls w @ retrievalCalls e t cat w,
                   auditLogs := auditLogs w @ [retrievalEvent t trace cat (retrieved e t cat w)] \<rparr>"
  using assms by (auto simp: retrieveRelevantArticles_eq Let_def split: if_splits)

lemma create_Inr:
  assumes "create d w = (Inr s, w')"
  shows "s = d\<lparr> agentSuggestion.oid := nextOid w \<rparr>"
    and "w' = w\<lparr> calls := calls w @ [Call_create (agentSuggestion.ticketId d)],
                   agentSuggestions := agentSuggestions w @ [d\<lparr> agentSuggestion.oid := nextOid w \<rparr>],
                   nextOid := nextOid w + 1 \<rparr>"
    and "agentSuggestion.ticketId d \<notin> set (map agentSuggestion.ticketId (agentSuggestions w))"
    and "agentSuggestionInvalidPaths d = []"
  using assms by (auto simp: create_eq split: if_splits)

lemma closing_step_Inr:
  assumes "(if close
            then bindIO (save (s\<lparr> autoClosed := True \<rparr>))
                   (\<lambda>s'. bindIO (logAction ev) (\<lambda>_. returnIO s'))
            else returnIO s) w = (Inr s2, w2)"
  shows "s2 = (if close then s\<lparr> autoClosed := True \<rparr> else s)"
    and "calls w2 = calls w @ (if close then [Call_save (agentSuggestion.oid s), Call_logAction (action ev)] else [])"
    and "auditLogs w2 = auditLogs w @ (if close then [ev] else [])"
    and "configDoc w2 = configDoc w"
  using assms
  by (auto simp: bindIO_def save_eq logAction_eq returnIO_def split: if_splits)

lemma processTicket_try_Inr:
  assumes run: "processTicket_try e t trace w = (Inr r, w')"
  shows "\<exists>cr dr.
     (let found = retrieved e t (categoryResult.category cr) w;
          conf = calculateOverallConfidence cr dr found;
          cfg = currentConfig w;
          close = (autoCloseEnabled cfg \<and> confidenceThreshold cfg \<le> conf)
      in fst (classifyCategory e t trace w) = Inr cr
        \<and> fst (generateDraftReply e t found cr trace w) = Inr dr
        \<and> shouldAutoClose r = close
        \<and> triageResult.traceId r = trace
        \<and> agentSuggestion.confidence (suggestion r) = conf
        \<and> agentSuggestion.ticketId (suggestion r) = ticket.oid t
        \<and> agentSuggestion.traceId (suggestion r) = trace
        \<and> autoClosed (suggestion r) = close
        \<and> predictedCategory (suggestion r) = categoryResult.category cr
        \<and> ticket.oid t \<notin> set (map agentSuggestion.ticketId (agentSuggestions w))
        \<and> configDoc w' = Some cfg
        \<and> calls w' = calls w
             @ [Call_logAction ''category_predicted'', Call_classifyCategory]
             @ retrievalCalls e t (categoryResult.category cr) w
             @ [Call_generateDraftReply, Call_create (ticket.oid t), Call_getConfig]
             @ (if close then [Call_save (nextOid w), Call_logAction ''auto_closed''] else [])
             @ [Call_logAction ''reply_drafted'']
        \<and> auditLogs w' = auditLogs w
             @ [\<lparr> auditLog.ticketId = ticket.oid t, auditLog.traceId = trace, actor = ''system'',
                  action = ''category_predicted'', description = ''Starting AI triage process'',
                  meta = TicketTitle (ticket.title t) \<rparr>,
                retrievalEvent t trace (categoryResult.category cr) found]
             @ (if close
                then [\<lparr> auditLog.ticketId = ticket.oid t, auditLog.traceId = trace,
                        actor = ''system'', action = ''auto_closed'',
                        description = ''Auto-closed with confidence '' @ toFixed3 conf,
                        meta = AutoCloseMeta conf (confidenceThreshold cfg) (draftResult.reply dr) \<rparr>]
                else [])
             @ [\<lparr> auditLog.ticketId = ticket.oid t, auditLog.traceId = trace, actor = ''system'',
                  action = ''reply_drafted'', description = ''AI triage process completed'',
                  meta = Summary conf (categoryResult.category cr) (length found) close \<rparr>])"
  using run unfolding processTicket_try_def Let_def
  apply (elim bindIO_InrE)
  subgoal premises p for u1 w1 cr w2 found w3 dr w4 s w5 cfg w6 s2 w7 u8 w8
  proof -
    note w1 = logAction_Inr [OF p(1)]
    note w2 = classifyCategory_Inr [OF p(2)]
    note found = retrieveRelevantArticles_Inr(1) [OF p(3)]
    note w3 = retrieveRelevantArticles_Inr(2) [OF p(3)]
    note w4 = generateDraftReply_Inr [OF p(4)]
    note s = create_Inr(1) [OF p(5)]
    note w5 = create_Inr(2) [OF p(5)]
    have fresh: "ticket.oid t \<notin> set (map agentSuggestion.ticketId (agentSuggestions w))"
      using create_Inr(3) [OF p(5)] by (simp add: w4 w3 w2 w1)
    have cfgw: "cfg = currentConfig w5" and w6: "w6 = w5\<lparr> calls := calls w5 @ [Call_getConfig],
        configDoc := Some (currentConfig w5) \<rparr>"
      using p(6) by (auto simp: getConfig_eq)
    note s2 = closing_step_Inr(1) [OF p(7)]
    note c7 = closing_step_Inr(2) [OF p(7)]
    note a7 = closing_step_Inr(3) [OF p(7)]
    note d7 = closing_step_Inr(4) [OF p(7)]
    note w8 = logAction_Inr [OF p(8)]
    have r: "r = \<lparr> suggestion = s2,
                   shouldAutoClose = (autoCloseEnabled cfg
                      \<and> confidenceThreshold cfg \<le> calculateOverallConfidence cr dr found),
                   traceId = trace \<rparr>" and w': "w' = w8"
      using p(9) by (simp_all add: returnIO_def)
    have vc: "fst (classifyCategory e t trace w) = Inr cr"
      using p(2) classifyCategory_value [of e t trace w trace w1] by simp
    have vd: "fst (generateDraftReply e t found cr trace w) = Inr dr"
      using p(4) generateDraftReply_value [of e t found cr trace w trace w3] by simp
    have f: "found = retrieved e t (categoryResult.category cr) w"
      by (simp add: found w2 w1)
    have cfg: "cfg = currentConfig w"
      by (simp add: cfgw w5 w4 w3 w2 w1)
    have calls: "calls w' = calls w
             @ [Call_logAction ''category_predicted'', Call_classifyCategory]
             @ retrievalCalls e t (categoryResult.category cr) w
             @ [Call_generateDraftReply, Call_create (ticket.oid t), Call_getConfig]
             @ (if autoCloseEnabled cfg \<and> confidenceThreshold cfg \<le> calculateOverallConfidence cr dr found
                then [Call_save (nextOid w), Call_logAction ''auto_closed''] else [])
             @ [Call_logAction ''reply_drafted'']"
      by (simp add: w' w8 c7 w6 w5 w4 w3 w2 w1 s)
    have logs: "auditLogs w' = auditLogs w
             @ [\<lparr> auditLog.ticketId = ticket.oid t, auditLog.traceId = trace, actor = ''system'',
                  action = ''category_predicted'', description = ''Starting AI triage process'',
                  meta = TicketTitle (ticket.title t) \<rparr>,
                retrievalEvent t trace (categoryResult.category cr) found]
             @ (if autoCloseEnabled cfg \<and> confidenceThreshold cfg \<le> calculateOverallConfidence cr dr found
                then [\<lparr> auditLog.ticketId = ticket.oid t, auditLog.traceId = trace,
                        actor = ''system'', action = ''auto_closed'',
                        description = ''Auto-closed with confidence ''
                           @ toFixed3 (calculateOverallConfidence cr dr found),
                        meta = AutoCloseMeta (calculateOverallConfidence cr dr found)
                                 (confidenceThreshold cfg) (draftResult.reply dr) \<rparr>]
                else [])
             @ [\<lparr> auditLog.ticketId = ticket.oid t, auditLog.traceId = trace, actor = ''system'',
                  action = ''reply_drafted'', description = ''AI triage process completed'',
                  meta = Summary (calculateOverallConfidence cr dr found) (categoryResult.category cr)
                           (length found)
                           (autoCloseEnabled cfg
                            \<and> confidenceThreshold cfg \<le> calculateOverallConfidence cr dr found) \<rparr>]"
      by (simp add: w' w8 a7 w6 w5 w4 w3 w2 w1 f [symmetric])
    have doc: "configDoc w' = Some cfg"
      by (simp add: w' w8 d7 w6 cfgw)
    show ?thesis
      apply (rule exI [of _ cr], rule exI [of _ dr])
      apply (simp only: f [symmetric] cfg [symmetric] calls logs doc vc vd)
      using fresh apply (simp add: r s2 s)
      done
  qed
  done

lemma processTicket_Inr:
  assumes "processTicket e t w = (Inr r, w')"
  shows "processTicket_try e t (uuidv4 e) w = (Inr r, w')"
proof (cases "processTicket_try e t (uuidv4 e) w")
  case (Pair res w1)
  show ?thesis
  proof (cases res)
    case (Inl err)
    obtain paths w2 where "processTicket_catch e t (uuidv4 e) err w1
        = (Inl (ValidationError ''AuditLog'' paths), w2)"
      using processTicket_catch_fails [of e t "uuidv4 e" err w1] by blast
    with Pair Inl assms show ?thesis
      by (simp add: processTicket_def tryCatch_def Let_def)
  next
    case (Inr x)
    with Pair assms show ?thesis
      by (simp add: processTicket_def tryCatch_def Let_def)
  qed
qed

lemma bindIO_InlE:
  assumes "bindIO m f w = (Inl err, w')"
  obtains "m w = (Inl err, w')" | x w1 where "m w = (Inr x, w1)" and "f x w1 = (Inl err, w')"
  using assms by (auto simp: bindIO_def split: prod.splits sum.splits)

lemma logAction_keeps_suggestions:
  "logAction d w = (res, w') \<Longrightarrow> agentSuggestions w' = agentSuggestions w"
  by (auto simp: logAction_eq split: if_splits)

lemma classifyCategory_keeps_suggestions:
  "classifyCategory e t trace w = (res, w') \<Longrightarrow> agentSuggestions w' = agentSuggestions w"
  using classifyCategory_effect [of e t trace w] by auto

lemma generateDraftReply_keeps_suggestions:
  "generateDraftReply e t found cr trace w = (res, w') \<Longrightarrow> agentSuggestions w' = agentSuggestions w"
  using generateDraftReply_effect [of e t found cr trace w] by auto

lemma retrieveRelevantArticles_keeps_suggestions:
  "retrieveRelevantArticles e t cat trace w = (res, w') \<Longrightarrow> agentSuggestions w' = agentSuggestions w"
  by (auto simp: retrieveRelevantArticles_eq Let_def split: if_splits)

lemma create_Inl_keeps_suggestions:
  "create d w = (Inl err, w') \<Longrightarrow> agentSuggestions w' = agentSuggestions w"
  by (auto simp: create_eq split: if_splits)

lemma steps_before_create_keep_suggestions:
  assumes "logAction ev w = (Inr u, wa)"
    and "classifyCategory e t trace wa = (Inr cr, wb)"
    and "retrieveRelevantArticles e t cat trace wb = (Inr found, wc)"
    and "generateDraftReply e t found cr trace wc = (Inr dr, wd)"
  shows "agentSuggestions wd = agentSuggestions w"
  by (simp add: generateDraftReply_keeps_suggestions [OF assms(4)]
      retrieveRelevantArticles_keeps_suggestions [OF assms(3)]
      classifyCategory_keeps_suggestions [OF assms(2)]
      logAction_keeps_suggestions [OF assms(1)])

lemma create_Inr_fresh:
  assumes "create d wd = (Inr s, we)" and "agentSuggestions wd = agentSuggestions w"
    and "agentSuggestion.ticketId d \<in> set (map agentSuggestion.ticketId (agentSuggestions w))"
  shows "P"
  using create_Inr(3) [OF assms(1)] assms(2,3) by simp

lemma processTicket_try_Inl_duplicate:
  assumes dup: "ticket.oid t \<in> set (map agentSuggestion.ticketId (agentSuggestions w))"
    and run: "processTicket_try e t trace w = (Inl err, w1)"
  shows "agentSuggestions w1 = agentSuggestions w"
  using run unfolding processTicket_try_def Let_def
proof (elim bindIO_InlE, goal_cases)
  case 1
  then show ?case by (rule logAction_keeps_suggestions)
next
  case (2 u wa)
  then show ?case
    by (simp add: logAction_keeps_suggestions [OF 2(1)] classifyCategory_keeps_suggestions [OF 2(2)])
next
  case (3 u wa cr wb)
  then show ?case
    by (simp add: logAction_keeps_suggestions [OF 3(1)] classifyCategory_keeps_suggestions [OF 3(2)]
        retrieveRelevantArticles_keeps_suggestions [OF 3(3)])
next
  case (4 u wa cr wb found wc)
  then show ?case
    by (simp add: logAction_keeps_suggestions [OF 4(1)] classifyCategory_keeps_suggestions [OF 4(2)]
        retrieveRelevantArticles_keeps_suggestions [OF 4(3)]
        generateDraftReply_keeps_suggestions [OF 4(4)])
next
  case (5 u wa cr wb found wc dr wd)
  show ?case
    by (simp add: create_Inl_keeps_suggestions [OF 5(5)]
        steps_before_create_keep_suggestions [OF 5(1) 5(2) 5(3) 5(4)])
next
  case (6 u wa cr wb found wc dr wd s we)
  show ?case
    by (rule create_Inr_fresh [OF 6(5) steps_before_create_keep_suggestions [OF 6(1) 6(2) 6(3) 6(4)]])
      (use dup in simp)
next
  case (7 u wa cr wb found wc dr wd s we)
  show ?case
    by (rule create_Inr_fresh [OF 7(5) steps_before_create_keep_suggestions [OF 7(1) 7(2) 7(3) 7(4)]])
      (use dup in simp)
next
  case (8 u wa cr wb found wc dr wd s we)
  show ?case
    by (rule create_Inr_fresh [OF 8(5) steps_before_create_keep_suggestions [OF 8(1) 8(2) 8(3) 8(4)]])
      (use dup in simp)
next
  case (9 u wa cr wb found wc dr wd s we)
  show ?case
    by (rule create_Inr_fresh [OF 9(5) steps_before_create_keep_suggestions [OF 9(1) 9(2) 9(3) 9(4)]])
      (use dup in simp)
qed





section \<open>Sample runs\<close>

text \<open>The sample runs, evaluated once each: a first run with the default configuration, a run
  under the eager configuration, a run whose classification is outside the closed domain, a second
  run of the same ticket, and the fallback path alone.\<close>

lemma processTicket_of_try_Inr:
  "processTicket_try e t (uuidv4 e) w = (Inr r, w') \<Longrightarrow> processTicket e t w = (Inr r, w')"
  by (simp add: processTicket_def tryCatch_def Let_def)

lemma processTicket_of_try_Inl:
  assumes "processTicket_try e t (uuidv4 e) w = (Inl err, w1)"
  shows "processTicket e t w =
     (Inl (ValidationError ''AuditLog''
        (auditLogInvalidPaths
           \<lparr> auditLog.ticketId = ticket.oid t, auditLog.traceId = uuidv4 e, actor = ''system'',
             action = ''triage_failed'', description = ''AI triage failed: '' @ message err,
             meta = ErrorMeta (message err) \<rparr>)),
      w1\<lparr> calls := calls w1 @ [Call_logAction ''triage_failed''] \<rparr>)"
proof -
  let ?ev = "\<lparr> auditLog.ticketId = ticket.oid t, auditLog.traceId = uuidv4 e, actor = ''system'',
                 action = ''triage_failed'', description = ''AI triage failed: '' @ message err,
                 meta = ErrorMeta (message err) \<rparr>"
  have "''action'' \<in> set (auditLogInvalidPaths ?ev)"
    by (rule triage_failed_invalid)
  then have "auditLogInvalidPaths ?ev \<noteq> []"
    by auto
  then have "processTicket_catch e t (uuidv4 e) err w1 =
          (Inl (ValidationError ''AuditLog'' (auditLogInvalidPaths ?ev)),
           w1\<lparr> calls := calls w1 @ [Call_logAction ''triage_failed''] \<rparr>)"
    by (simp add: processTicket_catch_def bindIO_def logAction_eq)
  with assms show ?thesis
    by (simp add: processTicket_def tryCatch_def Let_def)
qed

lemma run_summary_Inr:
  assumes "run_summary x = (Inr (a, b, c, d, f), cs, evs, ts, cfg)"
  shows "\<exists>r. x = (Inr r, snd x) \<and> shouldAutoClose r = a \<and> autoClosed (suggestion r) = b
            \<and> agentSuggestion.confidence (suggestion r) = c
            \<and> predictedCategory (suggestion r) = d \<and> triageResult.traceId r = f"
    and "calls (snd x) = cs"
    and "map (\<lambda>d. (action d, auditLog.traceId d, auditLog.ticketId d)) (auditLogs (snd x)) = evs"
    and "map agentSuggestion.ticketId (agentSuggestions (snd x)) = ts"
    and "configDoc (snd x) = cfg"
  using assms by (cases x; cases "fst x"; auto simp: run_summary_def)+

lemma run_summary_Inl:
  assumes "run_summary x = (Inl err, cs, evs, ts, cfg)"
  shows "x = (Inl err, snd x)"
    and "calls (snd x) = cs"
    and "map (\<lambda>d. (action d, auditLog.traceId d, auditLog.ticketId d)) (auditLogs (snd x)) = evs"
    and "map agentSuggestion.ticketId (agentSuggestions (snd x)) = ts"
    and "configDoc (snd x) = cfg"
  using assms by (cases x; cases "fst x"; auto simp: run_summary_def)+

lemma try_fresh:
  "run_summary (processTicket_try stubEnv passwordTicket ''trace-1'' freshWorld) =
     (Inr (False, False, 0.612, ''tech'', ''trace-1''),
      [Call_logAction ''category_predicted'', Call_classifyCategory,
       Call_searchByKeywords (Some ''tech'') 5, Call_logAction ''articles_retrieved'',
       Call_generateDraftReply, Call_create 7, Call_getConfig, Call_logAction ''reply_drafted''],
      [(''category_predicted'', ''trace-1'', 7), (''articles_retrieved'', ''trace-1'', 7),
       (''reply_drafted'', ''trace-1'', 7)],
      [7], Some defaultConfig)"
  by code_simp

lemma try_eager:
  "run_summary (processTicket_try stubEnv passwordTicket ''trace-1'' eagerWorld) =
     (Inr (True, True, 0.612, ''tech'', ''trace-1''),
      [Call_logAction ''category_predicted'', Call_classifyCategory,
       Call_searchByKeywords (Some ''tech'') 5, Call_logAction ''articles_retrieved'',
       Call_generateDraftReply, Call_create 7, Call_getConfig, Call_save 100,
       Call_logAction ''auto_closed'', Call_logAction ''reply_drafted''],
      [(''category_predicted'', ''trace-1'', 7), (''articles_retrieved'', ''trace-1'', 7),
       (''auto_closed'', ''trace-1'', 7), (''reply_drafted'', ''trace-1'', 7)],
      [7], Some \<lparr> autoCloseEnabled = True, confidenceThreshold = 0.1 \<rparr>)"
  by code_simp

lemma try_llm:
  "run_summary (processTicket_try llmEnv passwordTicket ''trace-3'' freshWorld) =
     (Inl (ValidationError ''AgentSuggestion'' [''predictedCategory'']),
      [Call_logAction ''category_predicted'', Call_classifyCategory,
       Call_searchByKeywords (Some ''account'') 5, Call_searchByKeywords None 3,
       Call_logAction ''articles_retrieved'', Call_generateDraftReply, Call_create 7],
      [(''category_predicted'', ''trace-3'', 7), (''articles_retrieved'', ''trace-3'', 7)],
      [], None)"
  by code_simp

lemma try_second:
  "run_summary (processTicket_try secondEnv passwordTicket ''trace-2'' triagedWorld) =
     (Inl (DuplicateKeyError ''ticketId_1''),
      [Call_logAction ''category_predicted'', Call_classifyCategory,
       Call_searchByKeywords (Some ''tech'') 5, Call_logAction ''articles_retrieved'',
       Call_generateDraftReply, Call_create 7, Call_getConfig, Call_logAction ''reply_drafted'',
       Call_logAction ''category_predicted'', Call_classifyCategory,
       Call_searchByKeywords (Some ''tech'') 5, Call_logAction ''articles_retrieved'',
       Call_generateDraftReply, Call_create 7],
      [(''category_predicted'', ''trace-1'', 7), (''articles_retrieved'', ''trace-1'', 7),
       (''reply_drafted'', ''trace-1'', 7),
       (''category_predicted'', ''trace-2'', 7), (''articles_retrieved'', ''trace-2'', 7)],
      [7], Some defaultConfig)"
  by code_simp

lemma stub_eager:
  "run_summary (getStubResult stubEnv passwordTicket ''trace-1'' eagerWorld) =
     (Inr (False, False, 0.612, ''tech'', ''trace-1''),
      [Call_searchByKeywords (Some ''tech'') 5, Call_logAction ''articles_retrieved'',
       Call_create 7],
      [(''articles_retrieved'', ''trace-1'', 7)],
      [7], Some \<lparr> autoCloseEnabled = True, confidenceThreshold = 0.1 \<rparr>)"
  by code_simp


lemma stubEnv_uuid: "uuidv4 stubEnv = ''trace-1''"
  by (simp add: stubEnv_def)

lemma secondEnv_uuid: "uuidv4 secondEnv = ''trace-2''"
  by (simp add: secondEnv_def)

lemma fresh_run:
  "\<exists>r. processTicket stubEnv passwordTicket freshWorld
          = (Inr r, snd (processTicket stubEnv passwordTicket freshWorld))
       \<and> snd (processTicket stubEnv passwordTicket freshWorld)
          = snd (processTicket_try stubEnv passwordTicket ''trace-1'' freshWorld)
       \<and> r = projr (fst (processTicket stubEnv passwordTicket freshWorld))
       \<and> shouldAutoClose r = False \<and> predictedCategory (suggestion r) = ''tech''
       \<and> triageResult.traceId r = ''trace-1''"
proof -
  from run_summary_Inr(1) [OF try_fresh] obtain r where
    t: "processTicket_try stubEnv passwordTicket ''trace-1'' freshWorld
          = (Inr r, snd (processTicket_try stubEnv passwordTicket ''trace-1'' freshWorld))"
    and r: "shouldAutoClose r = False" "predictedCategory (suggestion r) = ''tech''"
      "triageResult.traceId r = ''trace-1''"
    by blast
  have "processTicket stubEnv passwordTicket freshWorld
          = (Inr r, snd (processTicket_try stubEnv passwordTicket ''trace-1'' freshWorld))"
    by (rule processTicket_of_try_Inr) (simp add: stubEnv_uuid t [symmetric])
  with r show ?thesis
    by simp
qed

lemma eager_run:
  "\<exists>r. processTicket stubEnv passwordTicket eagerWorld
          = (Inr r, snd (processTicket stubEnv passwordTicket eagerWorld))
       \<and> snd (processTicket stubEnv passwordTicket eagerWorld)
          = snd (processTicket_try stubEnv passwordTicket ''trace-1'' eagerWorld)
       \<and> r = projr (fst (processTicket stubEnv passwordTicket eagerWorld))
       \<and> shouldAutoClose r = True \<and> predictedCategory (suggestion r) = ''tech''
       \<and> triageResult.traceId r = ''trace-1''"
proof -
  from run_summary_Inr(1) [OF try_eager] obtain r where
    t: "processTicket_try stubEnv passwordTicket ''trace-1'' eagerWorld
          = (Inr r, snd (processTicket_try stubEnv passwordTicket ''trace-1'' eagerWorld))"
    and r: "shouldAutoClose r = True" "predictedCategory (suggestion r) = ''tech''"
      "triageResult.traceId r = ''trace-1''"
    by blast
  have "processTicket stubEnv passwordTicket eagerWorld
          = (Inr r, snd (processTicket_try stubEnv passwordTicket ''trace-1'' eagerWorld))"
    by (rule processTicket_of_try_Inr) (simp add: stubEnv_uuid t [symmetric])
  with r show ?thesis
    by simp
qed

section \<open>Failure handling of the orchestrator\<close>

text \<open>C1. The specification asks that an error of any step end in a \<^verbatim>\<open>triage_failed\<close> audit
  event and a complete fallback result. The code does not do that: \<^verbatim>\<open>triage_failed\<close> is not among the
  actions the audit schema admits, so the audit write in the \<^verbatim>\<open>catch\<close> block is itself
  rejected and the rejection leaves \<^verbatim>\<open>processTicket\<close>. Whenever the \<^verbatim>\<open>try\<close> block raises,
  the call ends in the validation error of the audit log; no fallback result is built.\<close>

theorem processTicket_error_escapes:
  assumes "fst (processTicket_try e t (uuidv4 e) w) = Inl err"
  shows "(\<exists>paths. fst (processTicket e t w) = Inl (ValidationError ''AuditLog'' paths)
            \<and> ''action'' \<in> set paths)
     \<and> auditLogs (snd (processTicket e t w)) = auditLogs (snd (processTicket_try e t (uuidv4 e) w))
     \<and> agentSuggestions (snd (processTicket e t w))
         = agentSuggestions (snd (processTicket_try e t (uuidv4 e) w))"
proof -
  obtain w1 where tr: "processTicket_try e t (uuidv4 e) w = (Inl err, w1)"
    using assms by (cases "processTicket_try e t (uuidv4 e) w") simp
  obtain paths w2 where "processTicket_catch e t (uuidv4 e) err w1
        = (Inl (ValidationError ''AuditLog'' paths), w2)" and "''action'' \<in> set paths"
    and "agentSuggestions w2 = agentSuggestions w1" and "auditLogs w2 = auditLogs w1"
    using processTicket_catch_fails [of e t "uuidv4 e" err w1] by blast
  with tr show ?thesis
    by (auto simp: processTicket_def tryCatch_def Let_def)
qed

theorem processTicket_error_escapes_witness:
  "fst (processTicket_try llmEnv passwordTicket (uuidv4 llmEnv) freshWorld)
     = Inl (ValidationError ''AgentSuggestion'' [''predictedCategory''])
   \<and> (\<exists>paths. fst (processTicket llmEnv passwordTicket freshWorld)
                  = Inl (ValidationError ''AuditLog'' paths) \<and> ''action'' \<in> set paths)
   \<and> fst (processTicket llmEnv passwordTicket freshWorld) = Inl (ValidationError ''AuditLog'' [''action''])
   \<and> agentSuggestions (snd (processTicket llmEnv passwordTicket freshWorld)) = []"
proof -
  have u: "uuidv4 llmEnv = ''trace-3''"
    by (simp add: llmEnv_def)
  note tr = run_summary_Inl [OF try_llm]
  have h: "fst (processTicket_try llmEnv passwordTicket (uuidv4 llmEnv) freshWorld)
     = Inl (ValidationError ''AgentSuggestion'' [''predictedCategory''])"
    unfolding u by (subst tr(1)) simp
  have run: "processTicket_try llmEnv passwordTicket (uuidv4 llmEnv) freshWorld
     = (Inl (ValidationError ''AgentSuggestion'' [''predictedCategory'']),
        snd (processTicket_try llmEnv passwordTicket ''trace-3'' freshWorld))"
    unfolding u by (rule tr(1))
  note full = processTicket_of_try_Inl [OF run]
  have exact: "fst (processTicket llmEnv passwordTicket freshWorld)
      = Inl (ValidationError ''AuditLog'' [''action''])"
    unfolding full fst_conv
    by (simp add: auditLogInvalidPaths_def auditActors_def auditActions_def u)
  have none: "agentSuggestions (snd (processTicket llmEnv passwordTicket freshWorld)) = []"
    using tr(4) by (simp add: full)
  from processTicket_error_escapes [OF h] h exact none show ?thesis
    by simp
qed

section \<open>Auto-close gating\<close>

text \<open>C2. A run that returns a result closes automatically exactly when the configuration it reads
  (the stored document, or the defaults) enables auto-close and the aggregate confidence stored in
  the suggestion reaches the threshold; the fallback path returns \<open>shouldAutoClose = False\<close>
  whatever the confidence and the configuration.\<close>

theorem shouldAutoClose_gating:
  "(processTicket e t w = (Inr r, w') \<longrightarrow>
      configDoc w' = Some (currentConfig w) \<and>
      (\<exists>cr dr. fst (classifyCategory e t (uuidv4 e) w) = Inr cr
         \<and> fst (generateDraftReply e t (retrieved e t (categoryResult.category cr) w) cr
                  (uuidv4 e) w) = Inr dr
         \<and> agentSuggestion.confidence (suggestion r)
             = calculateOverallConfidence cr dr (retrieved e t (categoryResult.category cr) w)) \<and>
      shouldAutoClose r =
        (autoCloseEnabled (currentConfig w)
         \<and> confidenceThreshold (currentConfig w) \<le> agentSuggestion.confidence (suggestion r)))
   \<and> (getStubResult e t trace w = (Inr r, w') \<longrightarrow> shouldAutoClose r = False)"
proof (rule conjI; rule impI)
  assume "processTicket e t w = (Inr r, w')"
  then have "processTicket_try e t (uuidv4 e) w = (Inr r, w')"
    by (rule processTicket_Inr)
  from processTicket_try_Inr [OF this] obtain cr dr where
    c: "fst (classifyCategory e t (uuidv4 e) w) = Inr cr"
    and d: "fst (generateDraftReply e t (retrieved e t (categoryResult.category cr) w) cr
                  (uuidv4 e) w) = Inr dr"
    and a: "agentSuggestion.confidence (suggestion r)
             = calculateOverallConfidence cr dr (retrieved e t (categoryResult.category cr) w)"
    and s: "shouldAutoClose r =
        (autoCloseEnabled (currentConfig w)
         \<and> confidenceThreshold (currentConfig w)
             \<le> calculateOverallConfidence cr dr (retrieved e t (categoryResult.category cr) w))"
    and g: "configDoc w' = Some (currentConfig w)"
    unfolding Let_def by blast
  from c d a have "\<exists>cr dr. fst (classifyCategory e t (uuidv4 e) w) = Inr cr
         \<and> fst (generateDraftReply e t (retrieved e t (categoryResult.category cr) w) cr
                  (uuidv4 e) w) = Inr dr
         \<and> agentSuggestion.confidence (suggestion r)
             = calculateOverallConfidence cr dr (retrieved e t (categoryResult.category cr) w)"
    by blast
  with g s a
  show "configDoc w' = Some (currentConfig w) \<and>
      (\<exists>cr dr. fst (classifyCategory e t (uuidv4 e) w) = Inr cr
         \<and> fst (generateDraftReply e t (retrieved e t (categoryResult.category cr) w) cr
                  (uuidv4 e) w) = Inr dr
         \<and> agentSuggestion.confidence (suggestion r)
             = calculateOverallConfidence cr dr (retrieved e t (categoryResult.category cr) w)) \<and>
      shouldAutoClose r =
        (autoCloseEnabled (currentConfig w)
         \<and> confidenceThreshold (currentConfig w) \<le> agentSuggestion.confidence (suggestion r))"
    by simp
next
  assume "getStubResult e t trace w = (Inr r, w')"
  then show "shouldAutoClose r = False"
    unfolding getStubResult_def Let_def
    by (elim bindIO_InrE) (auto simp: returnIO_def)
qed

theorem shouldAutoClose_gating_witness:
  "\<not> isl (fst (processTicket stubEnv passwordTicket eagerWorld))
   \<and> shouldAutoClose (projr (fst (processTicket stubEnv passwordTicket eagerWorld)))
   \<and> autoCloseEnabled (currentConfig eagerWorld)
   \<and> confidenceThreshold (currentConfig eagerWorld)
       \<le> agentSuggestion.confidence
            (suggestion (projr (fst (processTicket stubEnv passwordTicket eagerWorld))))
   \<and> \<not> isl (fst (processTicket stubEnv passwordTicket freshWorld))
   \<and> \<not> shouldAutoClose (projr (fst (processTicket stubEnv passwordTicket freshWorld)))
   \<and> \<not> autoCloseEnabled (currentConfig freshWorld)
   \<and> \<not> isl (fst (getStubResult stubEnv passwordTicket ''trace-1'' eagerWorld))
   \<and> \<not> shouldAutoClose (projr (fst (getStubResult stubEnv passwordTicket ''trace-1'' eagerWorld)))"
proof -
  from eager_run obtain r1 where
    e: "processTicket stubEnv passwordTicket eagerWorld
          = (Inr r1, snd (processTicket stubEnv passwordTicket eagerWorld))"
    and e1: "r1 = projr (fst (processTicket stubEnv passwordTicket eagerWorld))"
    and e2: "shouldAutoClose r1 = True"
    by blast
  from fresh_run obtain r2 where
    f: "processTicket stubEnv passwordTicket freshWorld
          = (Inr r2, snd (processTicket stubEnv passwordTicket freshWorld))"
    and f1: "r2 = projr (fst (processTicket stubEnv passwordTicket freshWorld))"
    and f2: "shouldAutoClose r2 = False"
    by blast
  from run_summary_Inr(1) [OF stub_eager] obtain r3 where
    s: "getStubResult stubEnv passwordTicket ''trace-1'' eagerWorld
          = (Inr r3, snd (getStubResult stubEnv passwordTicket ''trace-1'' eagerWorld))"
    by blast
  have g1: "shouldAutoClose r1 =
        (autoCloseEnabled (currentConfig eagerWorld)
         \<and> confidenceThreshold (currentConfig eagerWorld) \<le> agentSuggestion.confidence (suggestion r1))"
    using shouldAutoClose_gating [of stubEnv passwordTicket eagerWorld r1
        "snd (processTicket stubEnv passwordTicket eagerWorld)"] e by blast
  have g2: "shouldAutoClose r3 = False"
    using shouldAutoClose_gating [of stubEnv passwordTicket eagerWorld r3
        "snd (getStubResult stubEnv passwordTicket ''trace-1'' eagerWorld)" "''trace-1''"] s
    by blast
  have c: "\<not> autoCloseEnabled (currentConfig freshWorld)"
    by (simp add: currentConfig_def freshWorld_def defaultConfig_def)
  have i1: "\<not> isl (fst (processTicket stubEnv passwordTicket eagerWorld))"
    by (subst e) simp
  have i2: "\<not> isl (fst (processTicket stubEnv passwordTicket freshWorld))"
    by (subst f) simp
  have i3: "\<not> isl (fst (getStubResult stubEnv passwordTicket ''trace-1'' eagerWorld))"
    by (subst s) simp
  have p3: "projr (fst (getStubResult stubEnv passwordTicket ''trace-1'' eagerWorld)) = r3"
    by (subst s) simp
  show ?thesis
    using g1 g2 c i1 i2 i3 e2 f2 unfolding p3 e1 [symmetric] f1 [symmetric]
    by simp
qed

section \<open>Two-tier retrieval\<close>



section \<open>One suggestion per ticket\<close>

text \<open>C7. A second run for a ticket that has a suggestion creates no second suggestion and leaves
  the stored one as it is: the unique index rejects the insert. That the conflict is what reaches
  the caller, as specified, does not hold of the code: the conflict is caught by the \<^verbatim>\<open>catch\<close> block,
  whose audit write is rejected (the action \<^verbatim>\<open>triage_failed\<close> is not admitted), and the caller
  receives that validation error instead.\<close>

theorem second_run_rejected:
  assumes dup: "ticket.oid t \<in> set (map agentSuggestion.ticketId (agentSuggestions w))"
  shows "(\<exists>paths. fst (processTicket e t w) = Inl (ValidationError ''AuditLog'' paths)
            \<and> ''action'' \<in> set paths)
     \<and> agentSuggestions (snd (processTicket e t w)) = agentSuggestions w"
proof (cases "processTicket_try e t (uuidv4 e) w")
  case (Pair res w1)
  show ?thesis
  proof (cases res)
    case (Inr r)
    with Pair have "processTicket_try e t (uuidv4 e) w = (Inr r, w1)"
      by simp
    from processTicket_try_Inr [OF this] obtain cr dr where
      "ticket.oid t \<notin> set (map agentSuggestion.ticketId (agentSuggestions w))"
      unfolding Let_def by blast
    with dup show ?thesis
      by simp
  next
    case (Inl err)
    with Pair have run: "processTicket_try e t (uuidv4 e) w = (Inl err, w1)"
      by simp
    have keep: "agentSuggestions w1 = agentSuggestions w"
      using dup run by (rule processTicket_try_Inl_duplicate)
    obtain paths w2 where c: "processTicket_catch e t (uuidv4 e) err w1
          = (Inl (ValidationError ''AuditLog'' paths), w2)"
      and a: "''action'' \<in> set paths" and k: "agentSuggestions w2 = agentSuggestions w1"
      using processTicket_catch_fails [of e t "uuidv4 e" err w1] by blast
    have "processTicket e t w = (Inl (ValidationError ''AuditLog'' paths), w2)"
      using run c by (simp add: processTicket_def tryCatch_def Let_def)
    with a k keep show ?thesis
      by simp
  qed
qed

theorem second_run_rejected_witness:
  "ticket.oid passwordTicket \<in> set (map agentSuggestion.ticketId (agentSuggestions triagedWorld))
   \<and> map agentSuggestion.ticketId (agentSuggestions triagedWorld) = [7]
   \<and> fst (processTicket_try secondEnv passwordTicket (uuidv4 secondEnv) triagedWorld)
       = Inl (DuplicateKeyError ''ticketId_1'')
   \<and> fst (processTicket secondEnv passwordTicket triagedWorld)
       = Inl (ValidationError ''AuditLog'' [''action''])
   \<and> (\<exists>paths. fst (processTicket secondEnv passwordTicket triagedWorld)
                  = Inl (ValidationError ''AuditLog'' paths) \<and> ''action'' \<in> set paths)
   \<and> agentSuggestions (snd (processTicket secondEnv passwordTicket triagedWorld))
       = agentSuggestions triagedWorld"
proof -
  from fresh_run have w: "triagedWorld = snd (processTicket_try stubEnv passwordTicket ''trace-1'' freshWorld)"
    unfolding triagedWorld_def by blast
  have ids: "map agentSuggestion.ticketId (agentSuggestions triagedWorld) = [7]"
    unfolding w by (rule run_summary_Inr(4) [OF try_fresh])
  have dup: "ticket.oid passwordTicket \<in> set (map agentSuggestion.ticketId (agentSuggestions triagedWorld))"
    unfolding ids by (simp add: passwordTicket_def)
  note tr = run_summary_Inl [OF try_second]
  have run: "processTicket_try secondEnv passwordTicket (uuidv4 secondEnv) triagedWorld
     = (Inl (DuplicateKeyError ''ticketId_1''),
        snd (processTicket_try secondEnv passwordTicket ''trace-2'' triagedWorld))"
    unfolding secondEnv_uuid by (rule tr(1))
  have h: "fst (processTicket_try secondEnv passwordTicket (uuidv4 secondEnv) triagedWorld)
       = Inl (DuplicateKeyError ''ticketId_1'')"
    by (subst run) simp
  note full = processTicket_of_try_Inl [OF run]
  have exact: "fst (processTicket secondEnv passwordTicket triagedWorld)
      = Inl (ValidationError ''AuditLog'' [''action''])"
    unfolding full fst_conv
    by (simp add: auditLogInvalidPaths_def auditActors_def auditActions_def secondEnv_uuid)
  from second_run_rejected [OF dup, of secondEnv] dup ids h exact show ?thesis
    by simp
qed

section \<open>Audit trail of a run\<close>

text \<open>C8. A run that returns a result appends to the audit log the events
  \<^verbatim>\<open>category_predicted\<close>, \<^verbatim>\<open>articles_retrieved\<close>, then \<^verbatim>\<open>auto_closed\<close> exactly when it
  closes automatically, and last \<^verbatim>\<open>reply_drafted\<close>; all of them carry the trace identifier
  generated at the start of the run, which is also the one returned.\<close>

theorem audit_trail_of_run:
  assumes "processTicket e t w = (Inr r, w')"
  shows "auditLogs w' = auditLogs w @ emitted w w'
     \<and> map action (emitted w w') =
         [''category_predicted'', ''articles_retrieved'']
         @ (if shouldAutoClose r then [''auto_closed''] else [])
         @ [''reply_drafted'']
     \<and> (\<forall>d \<in> set (emitted w w'). auditLog.traceId d = uuidv4 e \<and> auditLog.ticketId d = ticket.oid t)
     \<and> triageResult.traceId r = uuidv4 e"
proof -
  have "processTicket_try e t (uuidv4 e) w = (Inr r, w')"
    using assms by (rule processTicket_Inr)
  from processTicket_try_Inr [OF this] obtain cr dr where
    "(let found = retrieved e t (categoryResult.category cr) w;
          conf = calculateOverallConfidence cr dr found;
          cfg = currentConfig w;
          close = (autoCloseEnabled cfg \<and> confidenceThreshold cfg \<le> conf)
      in shouldAutoClose r = close
        \<and> triageResult.traceId r = uuidv4 e
        \<and> auditLogs w' = auditLogs w
             @ [\<lparr> auditLog.ticketId = ticket.oid t, auditLog.traceId = uuidv4 e, actor = ''system'',
                  action = ''category_predicted'', description = ''Starting AI triage process'',
                  meta = TicketTitle (ticket.title t) \<rparr>,
                retrievalEvent t (uuidv4 e) (categoryResult.category cr) found]
             @ (if close
                then [\<lparr> auditLog.ticketId = ticket.oid t, auditLog.traceId = uuidv4 e,
                        actor = ''system'', action = ''auto_closed'',
                        description = ''Auto-closed with confidence '' @ toFixed3 conf,
                        meta = AutoCloseMeta conf (confidenceThreshold cfg) (draftResult.reply dr) \<rparr>]
                else [])
             @ [\<lparr> auditLog.ticketId = ticket.oid t, auditLog.traceId = uuidv4 e, actor = ''system'',
                  action = ''reply_drafted'', description = ''AI triage process completed'',
                  meta = Summary conf (categoryResult.category cr) (length found) close \<rparr>])"
    unfolding Let_def by blast
  then show ?thesis
    by (simp add: Let_def emitted_def retrievalEvent_def)
qed

theorem audit_trail_of_run_witness:
  "\<not> isl (fst (processTicket stubEnv passwordTicket freshWorld))
   \<and> map action (emitted freshWorld (snd (processTicket stubEnv passwordTicket freshWorld)))
       = [''category_predicted'', ''articles_retrieved'', ''reply_drafted'']
   \<and> list_all (\<lambda>d. auditLog.traceId d = ''trace-1'')
        (emitted freshWorld (snd (processTicket stubEnv passwordTicket freshWorld)))
   \<and> \<not> isl (fst (processTicket stubEnv passwordTicket eagerWorld))
   \<and> map action (emitted eagerWorld (snd (processTicket stubEnv passwordTicket eagerWorld)))
       = [''category_predicted'', ''articles_retrieved'', ''auto_closed'', ''reply_drafted'']
   \<and> list_all (\<lambda>d. auditLog.traceId d = ''trace-1'')
        (emitted eagerWorld (snd (processTicket stubEnv passwordTicket eagerWorld)))
   \<and> triageResult.traceId (projr (fst (processTicket stubEnv passwordTicket eagerWorld))) = ''trace-1''"
proof -
  from eager_run obtain r1 where
    e: "processTicket stubEnv passwordTicket eagerWorld
          = (Inr r1, snd (processTicket stubEnv passwordTicket eagerWorld))"
    and e1: "r1 = projr (fst (processTicket stubEnv passwordTicket eagerWorld))"
    and e2: "shouldAutoClose r1 = True"
    by blast
  from fresh_run obtain r2 where
    f: "processTicket stubEnv passwordTicket freshWorld
          = (Inr r2, snd (processTicket stubEnv passwordTicket freshWorld))"
    and f2: "shouldAutoClose r2 = False"
    by blast
  have i1: "\<not> isl (fst (processTicket stubEnv passwordTicket eagerWorld))"
    by (subst e) simp
  have i2: "\<not> isl (fst (processTicket stubEnv passwordTicket freshWorld))"
    by (subst f) simp
  note a1 = audit_trail_of_run [OF e]
  note a2 = audit_trail_of_run [OF f]
  show ?thesis
    using a1 a2 i1 i2 unfolding e2 f2 e1 [symmetric] stubEnv_uuid list_all_iff
    by simp
qed

text \<open>C9, as stated, fails: in the sample run the \<^verbatim>\<open>category_predicted\<close> event is written
  before the classifier is called, not after it.\<close>

theorem classifier_before_event_counterexample:
  "\<not> isl (fst (processTicket stubEnv passwordTicket freshWorld))
   \<and> calls freshWorld = []
   \<and> \<not> occursBefore Call_classifyCategory (Call_logAction ''category_predicted'')
         (calls (snd (processTicket stubEnv passwordTicket freshWorld)))
   \<and> occursBefore (Call_logAction ''category_predicted'') Call_classifyCategory
         (calls (snd (processTicket stubEnv passwordTicket freshWorld)))"
proof -
  from fresh_run obtain r where
    f: "processTicket stubEnv passwordTicket freshWorld
          = (Inr r, snd (processTicket stubEnv passwordTicket freshWorld))"
    and w: "snd (processTicket stubEnv passwordTicket freshWorld)
          = snd (processTicket_try stubEnv passwordTicket ''trace-1'' freshWorld)"
    by blast
  have i: "\<not> isl (fst (processTicket stubEnv passwordTicket freshWorld))"
    by (subst f) simp
  have c: "calls (snd (processTicket stubEnv passwordTicket freshWorld)) =
      [Call_logAction ''category_predicted'', Call_classifyCategory,
       Call_searchByKeywords (Some ''tech'') 5, Call_logAction ''articles_retrieved'',
       Call_generateDraftReply, Call_create 7, Call_getConfig, Call_logAction ''reply_drafted'']"
    unfolding w by (rule run_summary_Inr(2) [OF try_fresh])
  show ?thesis
    using i unfolding c by (simp add: occursBefore_def freshWorld_def)
qed

text \<open>C9, amended. In every run that returns a result the orchestrator first writes the
  \<^verbatim>\<open>category_predicted\<close> event, as the marker of the start of triage carrying the ticket title,
  then calls the classifier, then starts retrieval with the predicted category.\<close>

theorem category_predicted_precedes_classifier:
  assumes "processTicket e t w = (Inr r, w')"
  shows "(\<exists>rest. calls w' = calls w
            @ [Call_logAction ''category_predicted'', Call_classifyCategory,
               Call_searchByKeywords (Some (predictedCategory (suggestion r))) 5] @ rest)
     \<and> (\<exists>rest. emitted w w' =
            \<lparr> auditLog.ticketId = ticket.oid t, auditLog.traceId = uuidv4 e, actor = ''system'',
              action = ''category_predicted'', description = ''Starting AI triage process'',
              meta = TicketTitle (ticket.title t) \<rparr> # rest)"
proof -
  have "processTicket_try e t (uuidv4 e) w = (Inr r, w')"
    using assms by (rule processTicket_Inr)
  from processTicket_try_Inr [OF this] obtain cr dr where
    big: "(let found = retrieved e t (categoryResult.category cr) w;
          conf = calculateOverallConfidence cr dr found;
          cfg = currentConfig w;
          close = (autoCloseEnabled cfg \<and> confidenceThreshold cfg \<le> conf)
      in predictedCategory (suggestion r) = categoryResult.category cr
        \<and> calls w' = calls w
             @ [Call_logAction ''category_predicted'', Call_classifyCategory]
             @ retrievalCalls e t (categoryResult.category cr) w
             @ [Call_generateDraftReply, Call_create (ticket.oid t), Call_getConfig]
             @ (if close then [Call_save (nextOid w), Call_logAction ''auto_closed''] else [])
             @ [Call_logAction ''reply_drafted'']
        \<and> auditLogs w' = auditLogs w
             @ [\<lparr> auditLog.ticketId = ticket.oid t, auditLog.traceId = uuidv4 e, actor = ''system'',
                  action = ''category_predicted'', description = ''Starting AI triage process'',
                  meta = TicketTitle (ticket.title t) \<rparr>,
                retrievalEvent t (uuidv4 e) (categoryResult.category cr) found]
             @ (if close
                then [\<lparr> auditLog.ticketId = ticket.oid t, auditLog.traceId = uuidv4 e,
                        actor = ''system'', action = ''auto_closed'',
                        description = ''Auto-closed with confidence '' @ toFixed3 conf,
                        meta = AutoCloseMeta conf (confidenceThreshold cfg) (draftResult.reply dr) \<rparr>]
                else [])
             @ [\<lparr> auditLog.ticketId = ticket.oid t, auditLog.traceId = uuidv4 e, actor = ''system'',
                  action = ''reply_drafted'', description = ''AI triage process completed'',
                  meta = Summary conf (categoryResult.category cr) (length found) close \<rparr>])"
    unfolding Let_def by blast
  have p: "predictedCategory (suggestion r) = categoryResult.category cr"
    using big by (simp add: Let_def)
  have c: "\<exists>rest1. calls w' = calls w
             @ [Call_logAction ''category_predicted'', Call_classifyCategory]
             @ retrievalCalls e t (categoryResult.category cr) w @ rest1"
    using big by (simp add: Let_def)
  have a: "\<exists>rest2. auditLogs w' = auditLogs w
             @ [\<lparr> auditLog.ticketId = ticket.oid t, auditLog.traceId = uuidv4 e, actor = ''system'',
                  action = ''category_predicted'', description = ''Starting AI triage process'',
                  meta = TicketTitle (ticket.title t) \<rparr>] @ rest2"
    using big by (simp add: Let_def)
  have "\<exists>rest. calls w' = calls w
            @ [Call_logAction ''category_predicted'', Call_classifyCategory,
               Call_searchByKeywords (Some (predictedCategory (suggestion r))) 5] @ rest"
    using c by (auto simp: retrievalCalls_def p)
  moreover have "\<exists>rest. emitted w w' =
            \<lparr> auditLog.ticketId = ticket.oid t, auditLog.traceId = uuidv4 e, actor = ''system'',
              action = ''category_predicted'', description = ''Starting AI triage process'',
              meta = TicketTitle (ticket.title t) \<rparr> # rest"
    using a by (auto simp: emitted_def)
  ultimately show ?thesis
    by (rule conjI)
qed

theorem category_predicted_precedes_classifier_witness:
  "\<not> isl (fst (processTicket stubEnv passwordTicket freshWorld))
   \<and> (\<exists>rest. calls (snd (processTicket stubEnv passwordTicket freshWorld)) =
         calls freshWorld
         @ [Call_logAction ''category_predicted'', Call_classifyCategory,
            Call_searchByKeywords (Some ''tech'') 5] @ rest)
   \<and> (\<exists>rest. emitted freshWorld (snd (processTicket stubEnv passwordTicket freshWorld)) =
         \<lparr> auditLog.ticketId = 7, auditLog.traceId = ''trace-1'', actor = ''system'',
           action = ''category_predicted'', description = ''Starting AI triage process'',
           meta = TicketTitle ''Cannot reset my password'' \<rparr> # rest)"
proof -
  from fresh_run obtain r where
    f: "processTicket stubEnv passwordTicket freshWorld
          = (Inr r, snd (processTicket stubEnv passwordTicket freshWorld))"
    and p: "predictedCategory (suggestion r) = ''tech''"
    by blast
  have i: "\<not> isl (fst (processTicket stubEnv passwordTicket freshWorld))"
    by (subst f) simp
  have t: "ticket.oid passwordTicket = 7" "ticket.title passwordTicket = ''Cannot reset my password''"
    by (simp_all add: passwordTicket_def)
  from category_predicted_precedes_classifier [OF f] i show ?thesis
    unfolding p stubEnv_uuid t by simp
qed

end
